theory Spec2Isabelle
  imports Main "HOL-Library.Word" "HOL-Library.AList"
begin

section \<open>JavaScript values used by the dashboard components\<close>

text \<open>
  A JavaScript string is a sequence of UTF-16 code units; \<open>.length\<close> counts code units.
  ASCII literals of the source are written with \<open>js\<close>; a character beyond ASCII is written
  as its code units.
\<close>

type_synonym jsstring = "16 word list"

definition js :: "string \<Rightarrow> jsstring" where
  "js s = map (\<lambda>c. of_nat (of_char c)) s"

text \<open>Truthiness of a value of type \<open>string | undefined\<close>: undefined and \<open>''\<close> are falsy.\<close>

definition truthy :: "jsstring option \<Rightarrow> bool" where
  "truthy s = (case s of None \<Rightarrow> False | Some v \<Rightarrow> v \<noteq> [])"

text \<open>\<open>a || b\<close> on a \<open>string | undefined\<close> and on a \<open>boolean | undefined\<close>.\<close>

definition or_string :: "jsstring option \<Rightarrow> jsstring \<Rightarrow> jsstring" where
  "or_string a b = (if truthy a then (case a of Some v \<Rightarrow> v | None \<Rightarrow> b) else b)"

definition or_bool :: "bool option \<Rightarrow> bool \<Rightarrow> bool" where
  "or_bool a b = (case a of Some True \<Rightarrow> True | _ \<Rightarrow> b)"

text \<open>\<open>Array.prototype.join\<close> on an array of strings.\<close>

fun join :: "jsstring \<Rightarrow> jsstring list \<Rightarrow> jsstring" where
  "join sep [] = []"
| "join sep [x] = x"
| "join sep (x # y # ys) = x @ sep @ join sep (y # ys)"

text \<open>The bullet character U+2022, one code unit.\<close>

definition bullet :: jsstring where
  "bullet = [0x2022]"

section \<open>React elements\<close>

text \<open>
  What a component returns is a tree of elements: a component or tag name, its props in
  source order, and its children. Event handlers are props holding an action. A call of
  \<open>twMerge\<close> (tailwind-merge, an external library) is kept as the list of its arguments,
  a falsy argument being \<open>None\<close>.
\<close>

datatype action =
    Copy jsstring jsstring
  | PropCallback string
  | StopPropagationThen action
  | HandleProviderUpdate

datatype node =
    Txt jsstring
  | Elem string "(string \<times> attr) list" "node list"
and attr =
    Str jsstring
  | Bool bool
  | Num nat
  | Handler action
  | Node node
  | TwMerge "jsstring option list"
  | Obj "(string \<times> attr) list"
  | Spread string
  | Undefined

text \<open>Observations on a tree: its text, its handlers, the names of its elements.\<close>

fun texts :: "node \<Rightarrow> jsstring list" and attr_texts :: "attr \<Rightarrow> jsstring list" where
  "texts (Txt s) = [s]"
| "texts (Elem t ps cs) = concat (map (\<lambda>(k, v). attr_texts v) ps) @ concat (map texts cs)"
| "attr_texts (Node n) = texts n"
| "attr_texts (Obj ps) = concat (map (\<lambda>(k, v). attr_texts v) ps)"
| "attr_texts p = []"

fun handlers :: "node \<Rightarrow> action list" and attr_handlers :: "attr \<Rightarrow> action list" where
  "handlers (Txt s) = []"
| "handlers (Elem t ps cs) =
     concat (map (\<lambda>(k, v). attr_handlers v) ps) @ concat (map handlers cs)"
| "attr_handlers (Handler a) = [a]"
| "attr_handlers (Node n) = handlers n"
| "attr_handlers (Obj ps) = concat (map (\<lambda>(k, v). attr_handlers v) ps)"
| "attr_handlers p = []"

fun components :: "node \<Rightarrow> string list" and attr_components :: "attr \<Rightarrow> string list" where
  "components (Txt s) = []"
| "components (Elem t ps cs) =
     t # concat (map (\<lambda>(k, v). attr_components v) ps) @ concat (map components cs)"
| "attr_components (Node n) = components n"
| "attr_components (Obj ps) = concat (map (\<lambda>(k, v). attr_components v) ps)"
| "attr_components p = []"

text \<open>The tree with every handler removed: what is displayed, without what a click does.\<close>

fun erase_handlers :: "node \<Rightarrow> node" and erase_attr :: "attr \<Rightarrow> attr" where
  "erase_handlers (Txt s) = Txt s"
| "erase_handlers (Elem t ps cs) =
     Elem t (map (\<lambda>(k, v). (k, erase_attr v)) ps) (map erase_handlers cs)"
| "erase_attr (Handler a) = Undefined"
| "erase_attr (Node n) = Node (erase_handlers n)"
| "erase_attr (Obj ps) = Obj (map (\<lambda>(k, v). (k, erase_attr v)) ps)"
| "erase_attr p = p"

text \<open>The sub-elements of a given name, outermost first.\<close>

fun elements_named :: "string \<Rightarrow> node \<Rightarrow> node list"
  and attr_elements_named :: "string \<Rightarrow> attr \<Rightarrow> node list" where
  "elements_named n (Txt s) = []"
| "elements_named n (Elem t ps cs) =
     (if t = n then [Elem t ps cs] else []) @
     concat (map (\<lambda>(k, v). attr_elements_named n v) ps) @
     concat (map (elements_named n) cs)"
| "attr_elements_named n (Node e) = elements_named n e"
| "attr_elements_named n (Obj ps) = concat (map (\<lambda>(k, v). attr_elements_named n v) ps)"
| "attr_elements_named n p = []"

text \<open>The value of a prop of an element.\<close>

fun prop_of :: "string \<Rightarrow> node \<Rightarrow> attr option" where
  "prop_of k (Txt s) = None"
| "prop_of k (Elem t ps cs) = map_of ps k"

text \<open>What a render does: it returns an element or throws.\<close>

datatype 'e thrown = QueryError 'e | TypeError

definition rendered :: "'e thrown + node \<Rightarrow> node option" where
  "rendered r = (case r of Inr t \<Rightarrow> Some t | Inl x \<Rightarrow> None)"

section \<open>The current project\<close>

record hasura_settings =
  adminSecret :: jsstring

record project_config =
  hasura :: hasura_settings

record project_plan =
  isFree :: bool

record 'r project =
  project_id :: jsstring
  subdomain :: jsstring
  region :: 'r
  config :: "project_config option"
  plan :: project_plan

section \<open>The generateAppServiceUrl module\<close>

text \<open>
  \<open>generateAppServiceUrl\<close> and its two tables of default slugs are imported by the
  components; they are parameters here. The function takes the subdomain, the region, the
  service name and, optionally, the local and the remote slugs.
\<close>

type_synonym slugs = "(string \<times> jsstring) list"

record 'r url_module =
  generateAppServiceUrl ::
    "jsstring option \<Rightarrow> 'r option \<Rightarrow> jsstring \<Rightarrow> slugs option \<Rightarrow> slugs option \<Rightarrow> jsstring"
  defaultLocalBackendSlugs :: slugs
  defaultRemoteBackendSlugs :: slugs

section \<open>What the hooks and the environment give a render\<close>

text \<open>
  \<open>useCurrentWorkspaceAndProject\<close> gives the current project, which may be undefined;
  \<open>useIsPlatform\<close> whether the dashboard runs on the platform; \<open>useUI\<close> the
  maintenance flag. \<open>process.env.NEXT_PUBLIC_ENV\<close> and the string that
  \<open>getHasuraConsoleServiceUrl()\<close> gives in the template literal are read from the
  environment.
\<close>

record 'r dashboard_env =
  currentProject :: "'r project option"
  isPlatform :: bool
  maintenanceActive :: bool
  NEXT_PUBLIC_ENV :: "jsstring option"
  getHasuraConsoleServiceUrl :: jsstring

text \<open>The result of a query hook.\<close>

record ('d, 'e) query_result =
  data :: "'d option"
  loading :: bool
  error :: "'e option"

section \<open>HasuraConnectionInfo\<close>

record HasuraConnectionInfoProps =
  close :: "action option"

definition LoadingScreen :: node where
  "LoadingScreen = Elem ''LoadingScreen'' [] []"

definition hasuraUrl :: "'r url_module \<Rightarrow> 'r dashboard_env \<Rightarrow> jsstring" where
  "hasuraUrl m env =
     (if NEXT_PUBLIC_ENV env = Some (js ''dev'') \<or> \<not> isPlatform env
      then getHasuraConsoleServiceUrl env
      else generateAppServiceUrl m
             (map_option subdomain (currentProject env))
             (map_option region (currentProject env))
             (js ''hasura'')
             (Some (defaultLocalBackendSlugs m))
             (Some (AList.update ''hasura'' (js ''/console'') (defaultRemoteBackendSlugs m))))"

text \<open>\<open>currentProject?.config?.hasura.adminSecret\<close>\<close>

definition projectAdminSecret :: "'r dashboard_env \<Rightarrow> jsstring option" where
  "projectAdminSecret env =
     Option.bind (Option.bind (currentProject env) config) (\<lambda>c. Some (adminSecret (hasura c)))"

text \<open>
  After the guard the secret is a string; the \<open>None\<close> branch of the case below is the one
  the guard has excluded.
\<close>

definition HasuraConnectionInfo ::
  "'r url_module \<Rightarrow> 'r dashboard_env \<Rightarrow> HasuraConnectionInfoProps \<Rightarrow> node" where
  "HasuraConnectionInfo m env props =
    (if \<not> truthy (map_option subdomain (currentProject env)) \<or>
        \<not> truthy (projectAdminSecret env)
     then LoadingScreen
     else (case projectAdminSecret env of
       None \<Rightarrow> LoadingScreen
     | Some secret \<Rightarrow>
       Elem ''div'' [(''className'', Str (js ''mx-auto w-full max-w-md px-6 py-4 text-left''))]
       [Elem ''div'' [(''className'', Str (js ''grid grid-flow-row gap-1''))]
        [Elem ''div'' [(''className'', Str (js ''mx-auto''))]
          [Elem ''Image''
            [(''src'', Str (js ''/assets/hasuramodal.svg'')),
             (''width'', Num 72),
             (''height'', Num 72),
             (''alt'', Str (js ''Hasura''))] []],
         Elem ''Text''
           [(''variant'', Str (js ''h3'')),
            (''component'', Str (js ''h1'')),
            (''className'', Str (js ''text-center''))]
           [Txt (js ''Open Hasura'')],
         Elem ''Text'' [(''className'', Str (js ''text-center''))]
           [Txt (js (''Hasura is the dashboard you'll use to edit your schema and '' @
                     ''permissions as well as browse data. Copy the admin secret to your '' @
                     ''clipboard and enter it in the next screen.''))],
         Elem ''Box'' [(''className'', Str (js ''mt-6 border-y-1''))]
          [Elem ''div''
            [(''className'', Str (js (''grid w-full grid-cols-1 place-content-between '' @
                                      ''items-center py-2 sm:grid-cols-3'')))]
            [Elem ''Text''
              [(''className'', Str (js (''col-span-1 text-center font-medium '' @
                                        ''sm:justify-start sm:text-left'')))]
              [Txt (js ''Admin Secret'')],
             Elem ''div''
              [(''className'', Str (js (''col-span-1 grid grid-flow-col items-center '' @
                                        ''justify-center gap-2 sm:col-span-2 sm:justify-end'')))]
              [Elem ''Text''
                [(''className'', Str (js ''font-medium'')),
                 (''variant'', Str (js ''subtitle2''))]
                [Txt (join [] (replicate (length secret) bullet))],
               Elem ''IconButton''
                [(''onClick'', Handler (Copy secret (js ''Hasura admin secret''))),
                 (''variant'', Str (js ''borderless'')),
                 (''color'', Str (js ''secondary'')),
                 (''className'', Str (js ''min-w-0 p-1'')),
                 (''aria-label'', Str (js ''Copy admin secret''))]
                [Elem ''CopyIcon'' [(''className'', Str (js ''h-4 w-4''))] []]]]],
         Elem ''div'' [(''className'', Str (js ''mt-6 grid grid-flow-row gap-2''))]
          ([Elem ''Button''
             [(''href'', Str (hasuraUrl m env)),
              (''target'', Str (js ''_blank'')),
              (''rel'', Str (js ''noreferrer noopener'')),
              (''endIcon'',
                 Node (Elem ''ArrowSquareOutIcon'' [(''className'', Str (js ''h-4 w-4''))] []))]
             [Txt (js ''Open Hasura'')]] @
           (case close props of
              None \<Rightarrow> []
            | Some cb \<Rightarrow>
              [Elem ''Button''
                [(''variant'', Str (js ''outlined'')),
                 (''color'', Str (js ''secondary'')),
                 (''className'', Str (js ''text-sm+ font-normal'')),
                 (''onClick'', Handler cb)]
                [Txt (js ''Cancel'')]]))]]))"

section \<open>The CustomDomains page\<close>

text \<open>
  \<open>currentProject.plan.isFree\<close> is read without optional chaining: with no current
  project the render throws a TypeError. Line breaks inside the \<open>description\<close> attribute
  are written as single spaces. The rocket emoji U+1F680 is the surrogate pair D83D DE80.
\<close>

definition CustomDomains :: "'r dashboard_env \<Rightarrow> 'e thrown + node" where
  "CustomDomains env =
    (case currentProject env of
       None \<Rightarrow> Inl TypeError
     | Some p \<Rightarrow>
       if isFree (plan p)
       then Inr
        (Elem ''Container''
          [(''className'', Str (js ''grid grid-flow-row gap-6 bg-transparent'')),
           (''rootClassName'', Str (js ''bg-transparent''))]
          [Elem ''UpgradeToProBanner''
            [(''title'', Str (js ''Upgrade to Nhost Pro to unlock custom domains'')),
             (''description'',
                Str (js (''In publishing and graphic design, Lorem ipsum is a placeholder text '' @
                         ''commonly used to demonstrate the visual form of a document or a '' @
                         ''typeface without relying on meaningful content.'')))] []])
       else Inr
        (Elem ''Container''
          [(''className'', Str (js ''grid max-w-5xl grid-flow-row gap-6 bg-transparent'')),
           (''rootClassName'', Str (js ''bg-transparent''))]
          [Elem ''Box''
            [(''className'',
                Str (js ''flex flex-row items-center gap-4 overflow-hidden rounded-lg border-1 p-4''))]
            [Elem ''div'' [(''className'', Str (js ''flex flex-col space-y-2''))]
              [Elem ''Text'' [(''className'', Str (js ''text-lg font-semibold''))]
                [Txt (js ''Custom Domains'')],
               Elem ''Text'' [(''color'', Str (js ''secondary''))]
                [Txt (js (''Add a custom domain to Auth, Hasura, PostgreSQL, and your Run '' @
                          ''services for only a $10 flat fee '') @ [0xD83D, 0xDE80] @ js '' ''),
                 Elem ''br'' [] [],
                 Txt (js '' Learn more about''),
                 Elem ''Link''
                  [(''href'', Str (js ''https://docs.nhost.io/platform/custom-domains'')),
                   (''target'', Str (js ''_blank'')),
                   (''rel'', Str (js ''noopener noreferrer'')),
                   (''underline'', Str (js ''hover'')),
                   (''className'', Str (js ''ml-1 font-medium''))]
                  [Txt (js ''Custom Domains''),
                   Elem ''ArrowSquareOutIcon'' [(''className'', Str (js ''ml-1 h-4 w-4''))] []]]]],
           Elem ''AuthDomain'' [] [],
           Elem ''HasuraDomain'' [] [],
           Elem ''DatabaseDomain'' [] [],
           Elem ''RunServiceDomains'' [] []]))"

definition getLayout :: "node \<Rightarrow> node" where
  "getLayout page = Elem ''SettingsLayout'' [] [page]"

section \<open>OverviewMetrics\<close>

text \<open>
  A metric value is a JavaScript number. The operations on numbers the component uses are
  parameters: whether a number is truthy (neither 0 nor NaN), the number 0,
  \<open>Math.round(x).toString()\<close>, and \<open>prettysize\<close> (an external library).
\<close>

record 'n number_ops =
  num_truthy :: "'n \<Rightarrow> bool"
  num_zero :: 'n
  round_toString :: "'n \<Rightarrow> jsstring"
  prettysize :: "'n \<Rightarrow> jsstring"

record 'n metric =
  metric_value :: 'n

record 'n GetProjectMetricsQuery =
  cpuSecondsUsage :: "'n metric option"
  totalRequests :: "'n metric option"
  functionInvocations :: "'n metric option"
  postgresVolumeUsage :: "'n metric option"
  postgresVolumeCapacity :: "'n metric option"
  logsVolume :: "'n metric option"

text \<open>\<open>data?.field?.value || 0\<close>\<close>

definition value_or_zero ::
  "'n number_ops \<Rightarrow> 'n GetProjectMetricsQuery option \<Rightarrow>
   ('n GetProjectMetricsQuery \<Rightarrow> 'n metric option) \<Rightarrow> 'n" where
  "value_or_zero ops d field =
     (case Option.bind d field of
        None \<Rightarrow> num_zero ops
      | Some m \<Rightarrow> if num_truthy ops (metric_value m) then metric_value m else num_zero ops)"

text \<open>
  \<open>label && <Text ...>\<close>: nothing is rendered for an undefined or empty label, and the same
  for the value.
\<close>

definition MetricsCard :: "jsstring option \<Rightarrow> jsstring option \<Rightarrow> jsstring option \<Rightarrow> node" where
  "MetricsCard label val className =
     Elem ''Box''
       [(''className'',
           TwMerge [Some (js ''grid grid-flow-row gap-2 rounded-md px-4 py-3''), className]),
        (''sx'', Obj [(''backgroundColor'', Str (js ''grey.200''))])]
       ((case label of
           None \<Rightarrow> []
         | Some l \<Rightarrow>
           if l = [] then []
           else [Elem ''Text''
                  [(''className'', Str (js ''font-medium'')), (''color'', Str (js ''secondary''))]
                  [Txt l]]) @
        (case val of
           None \<Rightarrow> []
         | Some v \<Rightarrow>
           if v = [] then []
           else [Elem ''Text''
                  [(''variant'', Str (js ''h2'')),
                   (''component'', Str (js ''p'')),
                   (''className'', Str (js ''truncate''))]
                  [Txt v]]))"

record card_element =
  card_label :: jsstring
  card_value :: jsstring

definition cardElements ::
  "'n number_ops \<Rightarrow> 'n GetProjectMetricsQuery option \<Rightarrow> card_element list" where
  "cardElements ops d =
    [\<lparr>card_label = js ''CPU Usage Seconds'',
      card_value = round_toString ops (value_or_zero ops d cpuSecondsUsage)\<rparr>,
     \<lparr>card_label = js ''Total Requests'',
      card_value = round_toString ops (value_or_zero ops d totalRequests)\<rparr>,
     \<lparr>card_label = js ''Function Invocations'',
      card_value = round_toString ops (value_or_zero ops d functionInvocations)\<rparr>,
     \<lparr>card_label = js ''Postgres Usage'',
      card_value = prettysize ops (value_or_zero ops d postgresVolumeUsage)\<rparr>,
     \<lparr>card_label = js ''Postgres Capacity'',
      card_value = prettysize ops (value_or_zero ops d postgresVolumeCapacity)\<rparr>,
     \<lparr>card_label = js ''Logs'',
      card_value = prettysize ops (value_or_zero ops d logsVolume)\<rparr>]"

text \<open>
  An element of the component \<open>MetricsCard\<close>, which this file defines, is written with the
  props it is given and, as its only child, what \<open>MetricsCard\<close> renders for them.
  The query result is what \<open>useGetProjectMetricsQuery\<close> returned for this render; the
  variables of the query (the project id and the first day of the month) are not part of the
  model. The value of \<open>!data && error\<close> is the error when there is no data, and falsy
  otherwise.
\<close>

definition OverviewMetrics ::
  "'n number_ops \<Rightarrow> ('n GetProjectMetricsQuery, 'e) query_result \<Rightarrow> 'e thrown + node" where
  "OverviewMetrics ops q =
    (if data q = None \<and> loading q
     then Inr
      (Elem ''div'' [(''className'', Str (js ''grid grid-flow-row gap-4''))]
        [Elem ''div''
          [(''className'', Str (js ''grid grid-cols-1 gap-4 xs:grid-cols-2 md:grid-cols-3''))]
          (map (\<lambda>element.
                  Elem ''MetricsCard''
                    [(''className'', Str (js ''h-[92px] animate-pulse'')),
                     (''key'', Str (card_label element))]
                    [MetricsCard None None (Some (js ''h-[92px] animate-pulse''))])
               (cardElements ops (data q))),
         Elem ''Text'' [(''color'', Str (js ''disabled''))]
          [Txt (js ''Your project usage since the beginning of the month.'')]])
     else
      (case (if data q = None then error q else None) of
         Some e \<Rightarrow> Inl (QueryError e)
       | None \<Rightarrow> Inr
          (Elem ''div'' [(''className'', Str (js ''grid grid-flow-row gap-4''))]
            [Elem ''div''
              [(''className'',
                  Str (js ''grid grid-cols-1 justify-start gap-4 xs:grid-cols-2 md:grid-cols-3''))]
              (map (\<lambda>element.
                      Elem ''MetricsCard''
                        [(''label'', Str (card_label element)),
                         (''value'', Str (card_value element)),
                         (''key'', Str (card_label element))]
                        [MetricsCard (Some (card_label element)) (Some (card_value element))
                           None])
                   (cardElements ops (data q))),
             Elem ''Text'' [(''color'', Str (js ''disabled''))]
              [Txt (js ''Your resource usage since the beginning of the month.'')]])))"

section \<open>AzureADProviderSettings\<close>

subsection \<open>The configuration subtree and the validation schema\<close>

text \<open>
  The form values have the type inferred from the schema: three optional strings and an
  optional boolean. The \<open>azuread\<close> object of the sign-in-methods query has the same fields.
\<close>

record AzureADProviderFormValues =
  clientId :: "jsstring option"
  clientSecret :: "jsstring option"
  tenant :: "jsstring option"
  enabled :: "bool option"

record config_oauth =
  azuread :: "AzureADProviderFormValues option"

record config_method =
  oauth :: "config_oauth option"

record config_auth =
  auth_method :: "config_method option"

record config_tree =
  auth :: "config_auth option"

record GetSignInMethodsQuery =
  query_config :: "config_tree option"

text \<open>
  Yup (an external library): \<open>string()\<close> accepts an undefined value and every string;
  \<open>string().required()\<close> rejects undefined and the empty string; \<open>boolean()\<close> accepts
  undefined, true and false. \<open>when('enabled', {is: true, then})\<close> applies \<open>then\<close> when
  the sibling field \<open>enabled\<close> is \<open>true\<close>. An object passes when each field passes.
\<close>

definition yup_string :: "jsstring option \<Rightarrow> bool" where
  "yup_string v = True"

definition yup_required :: "(jsstring option \<Rightarrow> bool) \<Rightarrow> jsstring option \<Rightarrow> bool" where
  "yup_required schema v = (schema v \<and> truthy v)"

definition yup_boolean :: "bool option \<Rightarrow> bool" where
  "yup_boolean v = True"

definition when_enabled ::
  "AzureADProviderFormValues \<Rightarrow> (jsstring option \<Rightarrow> bool) \<Rightarrow> jsstring option \<Rightarrow> bool" where
  "when_enabled vs schema v =
     (if enabled vs = Some True then yup_required schema v else schema v)"

definition validationSchema :: "AzureADProviderFormValues \<Rightarrow> bool" where
  "validationSchema vs =
     (when_enabled vs yup_string (clientId vs) \<and>
      when_enabled vs yup_string (clientSecret vs) \<and>
      when_enabled vs yup_string (tenant vs) \<and>
      yup_boolean (enabled vs))"

subsection \<open>The form\<close>

text \<open>
  react-hook-form (an external library): \<open>useForm\<close> creates the form from the default
  values on the first render and returns the same form on the later ones;
  \<open>reset(values)\<close> makes the given values the values and the default values of the form
  and clears its dirty state and its errors. The errors map a field name to a message.
  The form is created with the schema as its resolver and \<open>reValidateMode: 'onSubmit'\<close>:
  the schema is run when the form is submitted, and a render reads only the form state.
\<close>

record form_state =
  defaultValues :: AzureADProviderFormValues
  form_values :: AzureADProviderFormValues
  isDirty :: bool
  isSubmitting :: bool
  errors :: "(string \<times> jsstring) list"

definition useForm :: "form_state option \<Rightarrow> AzureADProviderFormValues \<Rightarrow> form_state" where
  "useForm mounted dv =
     (case mounted of
        Some f \<Rightarrow> f
      | None \<Rightarrow> \<lparr>defaultValues = dv, form_values = dv, isDirty = False,
                 isSubmitting = False, errors = []\<rparr>)"

definition reset :: "AzureADProviderFormValues \<Rightarrow> form_state \<Rightarrow> form_state" where
  "reset vs f = f\<lparr>defaultValues := vs, form_values := vs, isDirty := False, errors := []\<rparr>"

text \<open>The options of the two hooks.\<close>

datatype fetch_policy = CacheFirst | CacheOnly | NetworkOnly | NoCache | CacheAndNetwork

record query_options =
  variables_appId :: "jsstring option"
  fetchPolicy :: fetch_policy

definition useGetSignInMethodsQuery_options :: "'r dashboard_env \<Rightarrow> query_options" where
  "useGetSignInMethodsQuery_options env =
     \<lparr>variables_appId = map_option project_id (currentProject env), fetchPolicy = CacheOnly\<rparr>"

definition useUpdateConfigMutation_refetchQueries :: "string list" where
  "useUpdateConfigMutation_refetchQueries = [''GetSignInMethodsDocument'']"

text \<open>\<open>data?.config?.auth?.method?.oauth?.azuread || {}\<close>, then the default values.\<close>

definition azuread_of :: "GetSignInMethodsQuery option \<Rightarrow> AzureADProviderFormValues" where
  "azuread_of d =
     (case Option.bind (Option.bind (Option.bind (Option.bind (Option.bind d
             query_config) auth) auth_method) oauth) azuread of
        Some a \<Rightarrow> a
      | None \<Rightarrow> \<lparr>clientId = None, clientSecret = None, tenant = None, enabled = None\<rparr>)"

definition form_defaultValues :: "GetSignInMethodsQuery option \<Rightarrow> AzureADProviderFormValues" where
  "form_defaultValues d =
     \<lparr>clientId = Some (or_string (clientId (azuread_of d)) []),
      clientSecret = Some (or_string (clientSecret (azuread_of d)) []),
      tenant = Some (or_string (tenant (azuread_of d)) []),
      enabled = Some (or_bool (enabled (azuread_of d)) False)\<rparr>"

subsection \<open>Toasts and the submit handler\<close>

text \<open>
  react-hot-toast (an external library): \<open>toast.promise(promise, messages, options)\<close>
  shows the loading message at once and, when the promise settles, the success message or
  the error message, which may be computed from the error; it gives back the promise. The
  list of toasts is what has been shown, oldest first.
\<close>

datatype toast_kind = ToastLoading | ToastSuccess | ToastError

datatype 'sty toast = Toast toast_kind jsstring 'sty

record 'e toast_messages =
  msg_loading :: jsstring
  msg_success :: jsstring
  msg_error :: "'e \<Rightarrow> jsstring"

definition toast_promise ::
  "'e + 'a \<Rightarrow> 'e toast_messages \<Rightarrow> 'sty \<Rightarrow> 'sty toast list \<Rightarrow> ('e + 'a) \<times> 'sty toast list" where
  "toast_promise promise msgs sty shown =
     (promise,
      shown @ [Toast ToastLoading (msg_loading msgs) sty] @
      [case promise of
         Inr r \<Rightarrow> Toast ToastSuccess (msg_success msgs) sty
       | Inl e \<Rightarrow> Toast ToastError (msg_error msgs e) sty])"

text \<open>
  Modelled from the spec: \<open>getServerError\<close> (\<open>@/utils/settings/getServerError\<close>) is not
  among the source files. The spec says that mutation errors are surfaced via toast
  notifications with static user-facing copy: the message shown for an error is the
  message the function was given.
\<close>

definition getServerError :: "jsstring \<Rightarrow> 'e \<Rightarrow> jsstring" where
  "getServerError fallbackMessage = (\<lambda>e. fallbackMessage)"

text \<open>
  The variables of the update-config mutation, and what the page holds while the handler
  runs: the form, the toasts shown and the mutations sent. \<open>updateConfig\<close> is the
  mutation function of the hook: the promise it returns resolves (\<open>Inr\<close>) or rejects
  (\<open>Inl\<close>). \<open>getServerError\<close> and the result of \<open>getToastStyleProps()\<close> are parameters
  of the handler.
\<close>

record update_config_variables =
  appId :: jsstring
  variables_config :: config_tree

record 'sty page_state =
  form :: form_state
  toasts :: "'sty toast list"
  sent :: "update_config_variables list"

definition updateConfig_variables ::
  "'r project \<Rightarrow> AzureADProviderFormValues \<Rightarrow> update_config_variables" where
  "updateConfig_variables p vs =
     \<lparr>appId = project_id p,
      variables_config =
        \<lparr>auth = Some \<lparr>auth_method = Some \<lparr>oauth = Some \<lparr>azuread = Some vs\<rparr>\<rparr>\<rparr>\<rparr>\<rparr>"

text \<open>
  The handler is an async function: it returns a promise, which rejects with a TypeError
  when \<open>currentProject.id\<close> is read with no current project, and resolves otherwise, the
  rejection of the mutation being caught.
\<close>

definition handleProviderUpdate ::
  "(jsstring \<Rightarrow> 'e \<Rightarrow> jsstring) \<Rightarrow> 'sty \<Rightarrow> (update_config_variables \<Rightarrow> 'e + 'a) \<Rightarrow>
   'r dashboard_env \<Rightarrow> AzureADProviderFormValues \<Rightarrow> 'sty page_state \<Rightarrow>
   ('e thrown + unit) \<times> 'sty page_state" where
  "handleProviderUpdate serverError sty updateConfig env vs st =
    (case currentProject env of
       None \<Rightarrow> (Inl TypeError, st)
     | Some p \<Rightarrow>
       let variables = updateConfig_variables p vs;
           updateConfigPromise = updateConfig variables;
           st1 = st\<lparr>sent := sent st @ [variables]\<rparr>;
           awaited =
             toast_promise updateConfigPromise
               \<lparr>msg_loading = js ''Azure AD settings are being updated...'',
                msg_success = js ''Azure AD settings have been updated successfully.'',
                msg_error =
                  serverError
                    (js (''An error occurred while trying to update the project's '' @
                         ''Azure AD settings.''))\<rparr>
               sty (toasts st1);
           st2 = st1\<lparr>toasts := snd awaited\<rparr>
       in (case fst awaited of
             Inr r \<Rightarrow> (Inr (), st2\<lparr>form := reset vs (form st2)\<rparr>)
           | Inl e \<Rightarrow> (Inr (), st2)))"

subsection \<open>The component\<close>

definition redirectUrl :: "'r url_module \<Rightarrow> 'r project \<Rightarrow> jsstring" where
  "redirectUrl m p =
     generateAppServiceUrl m (Some (subdomain p)) (Some (region p)) (js ''auth'') None None @
     js ''/signin/provider/azuread/callback''"

text \<open>
  A render gives the form of the hook and either the element returned or what is thrown.
  \<open>watch('enabled')\<close> is the current value of the field; \<open>currentProject.subdomain\<close> in
  the redirect URL is read without optional chaining.
\<close>

definition AzureADProviderSettings ::
  "'r url_module \<Rightarrow> 'r dashboard_env \<Rightarrow> (GetSignInMethodsQuery, 'e) query_result \<Rightarrow>
   form_state option \<Rightarrow> form_state \<times> ('e thrown + node)" where
  "AzureADProviderSettings m env q mounted =
    (let f = useForm mounted (form_defaultValues (data q)) in
     (f,
      if loading q
      then Inr
        (Elem ''ActivityIndicator''
          [(''delay'', Num 1000),
           (''label'', Str (js ''Loading settings for Azure AD...'')),
           (''className'', Str (js ''justify-center''))] [])
      else (case error q of
        Some e \<Rightarrow> Inl (QueryError e)
      | None \<Rightarrow>
        (case currentProject env of
           None \<Rightarrow> Inl TypeError
         | Some p \<Rightarrow>
           let authEnabled = enabled (form_values f) in
           Inr
            (Elem ''FormProvider'' [(''...form'', Spread ''form'')]
              [Elem ''Form'' [(''onSubmit'', Handler HandleProviderUpdate)]
                [Elem ''SettingsContainer''
                  [(''title'', Str (js ''Azure AD'')),
                   (''description'', Str (js ''Allow users to sign in with Azure AD.'')),
                   (''slotProps'',
                      Obj [(''submitButton'',
                        Obj [(''disabled'', Bool (\<not> isDirty f \<or> maintenanceActive env)),
                             (''loading'', Bool (isSubmitting f))])]),
                   (''icon'', Str (js ''/assets/brands/azuread.svg'')),
                   (''switchId'', Str (js ''enabled'')),
                   (''showSwitch'', Bool True),
                   (''className'',
                      TwMerge
                        [Some (js ''grid grid-flow-row grid-cols-2 gap-y-4 gap-x-3 px-4 py-2''),
                         if authEnabled = Some True then None else Some (js ''hidden'')])]
                  [Elem ''BaseProviderSettings'' [(''providerName'', Str (js ''azuread''))] [],
                   Elem ''Input''
                    [(''...register'', Spread ''tenant''),
                     (''name'', Str (js ''tenant'')),
                     (''id'', Str (js ''tenant'')),
                     (''label'', Str (js ''Tenant ID'')),
                     (''placeholder'', Str (js ''Tenant ID'')),
                     (''className'', Str (js ''col-span-2'')),
                     (''fullWidth'', Bool True),
                     (''hideEmptyHelperText'', Bool True),
                     (''error'', Bool (map_of (errors f) ''tenant'' \<noteq> None)),
                     (''helperText'',
                        (case map_of (errors f) ''tenant'' of
                           None \<Rightarrow> Undefined
                         | Some msg \<Rightarrow> Str msg))] [],
                   Elem ''Input''
                    [(''name'', Str (js ''redirectUrl'')),
                     (''id'', Str (js ''redirectUrl'')),
                     (''defaultValue'', Str (redirectUrl m p)),
                     (''className'', Str (js ''col-span-2'')),
                     (''fullWidth'', Bool True),
                     (''hideEmptyHelperText'', Bool True),
                     (''label'', Str (js ''Redirect URL'')),
                     (''disabled'', Bool True),
                     (''endAdornment'',
                        Node
                         (Elem ''InputAdornment''
                           [(''position'', Str (js ''end'')),
                            (''className'', Str (js ''absolute right-2''))]
                           [Elem ''IconButton''
                             [(''sx'', Obj [(''minWidth'', Num 0), (''padding'', Num 0)]),
                              (''color'', Str (js ''secondary'')),
                              (''variant'', Str (js ''borderless'')),
                              (''onClick'',
                                 Handler (StopPropagationThen
                                   (Copy (redirectUrl m p) (js ''Redirect URL''))))]
                             [Elem ''CopyIcon''
                               [(''className'', Str (js ''h-4 w-4''))] []]]))] []]]])))))"

text \<open>What is passed to the submit button of the settings container.\<close>

fun obj_get :: "string \<Rightarrow> attr \<Rightarrow> attr option" where
  "obj_get k (Obj ps) = map_of ps k"
| "obj_get k p = None"

definition submitButton_disabled :: "node \<Rightarrow> attr option" where
  "submitButton_disabled t =
     (case elements_named ''SettingsContainer'' t of
        [e] \<Rightarrow> Option.bind (Option.bind (prop_of ''slotProps'' e) (obj_get ''submitButton''))
                 (obj_get ''disabled'')
      | _ \<Rightarrow> None)"

section \<open>Sample inputs\<close>

text \<open>Concrete projects, query results and forms on which the theorems are exercised.\<close>

definition sample_generateAppServiceUrl ::
  "jsstring option \<Rightarrow> nat option \<Rightarrow> jsstring \<Rightarrow> slugs option \<Rightarrow> slugs option \<Rightarrow> jsstring" where
  "sample_generateAppServiceUrl sub reg service localSlugs remoteSlugs =
     (case sub of None \<Rightarrow> js ''undefined'' | Some s \<Rightarrow> s) @ js ''.'' @ service @ js ''.nhost.run''"

definition other_generateAppServiceUrl ::
  "jsstring option \<Rightarrow> nat option \<Rightarrow> jsstring \<Rightarrow> slugs option \<Rightarrow> slugs option \<Rightarrow> jsstring" where
  "other_generateAppServiceUrl sub reg service localSlugs remoteSlugs =
     (if truthy sub then sample_generateAppServiceUrl sub reg service localSlugs remoteSlugs
      else js ''no subdomain'')"

definition sample_module :: "nat url_module" where
  "sample_module =
     \<lparr>generateAppServiceUrl = sample_generateAppServiceUrl,
      defaultLocalBackendSlugs = [],
      defaultRemoteBackendSlugs = [(''hasura'', js ''/v1'')]\<rparr>"

definition sample_project :: "nat project" where
  "sample_project =
     \<lparr>project_id = js ''p1'', subdomain = js ''abc'', region = 0,
      config = Some \<lparr>hasura = \<lparr>adminSecret = js ''s3cret''\<rparr>\<rparr>,
      plan = \<lparr>isFree = False\<rparr>\<rparr>"

definition sample_env :: "nat dashboard_env" where
  "sample_env =
     \<lparr>currentProject = Some sample_project, isPlatform = True, maintenanceActive = False,
      NEXT_PUBLIC_ENV = None, getHasuraConsoleServiceUrl = js ''http://localhost:9695''\<rparr>"

definition sample_props :: HasuraConnectionInfoProps where
  "sample_props = \<lparr>close = Some (PropCallback ''close'')\<rparr>"

definition other_secret_env :: "nat dashboard_env" where
  "other_secret_env =
     sample_env\<lparr>currentProject :=
       Some (sample_project\<lparr>config := Some \<lparr>hasura = \<lparr>adminSecret = js ''SECRET''\<rparr>\<rparr>\<rparr>)\<rparr>"

definition free_env :: "nat dashboard_env" where
  "free_env = sample_env\<lparr>currentProject := Some (sample_project\<lparr>plan := \<lparr>isFree = True\<rparr>\<rparr>)\<rparr>"

definition sample_ops :: "nat number_ops" where
  "sample_ops =
     \<lparr>num_truthy = (\<lambda>n. n \<noteq> 0), num_zero = 0,
      round_toString = (\<lambda>n. replicate n 0x31),
      prettysize = (\<lambda>n. replicate n 0x31 @ js '' Bytes'')\<rparr>"

definition sample_metrics :: "nat GetProjectMetricsQuery" where
  "sample_metrics =
     \<lparr>cpuSecondsUsage = Some \<lparr>metric_value = 3\<rparr>, totalRequests = Some \<lparr>metric_value = 2\<rparr>,
      functionInvocations = None, postgresVolumeUsage = Some \<lparr>metric_value = 1\<rparr>,
      postgresVolumeCapacity = Some \<lparr>metric_value = 4\<rparr>, logsVolume = None\<rparr>"

definition loading_metrics :: "(nat GetProjectMetricsQuery, string) query_result" where
  "loading_metrics = \<lparr>data = None, loading = True, error = None\<rparr>"

definition failed_metrics :: "(nat GetProjectMetricsQuery, string) query_result" where
  "failed_metrics = \<lparr>data = None, loading = False, error = Some ''network error''\<rparr>"

definition stale_metrics :: "(nat GetProjectMetricsQuery, string) query_result" where
  "stale_metrics = \<lparr>data = Some sample_metrics, loading = False, error = Some ''network error''\<rparr>"

definition sample_azuread :: AzureADProviderFormValues where
  "sample_azuread =
     \<lparr>clientId = Some (js ''id''), clientSecret = Some (js ''secret''),
      tenant = Some (js ''common''), enabled = Some True\<rparr>"

definition sample_signin :: "(GetSignInMethodsQuery, string) query_result" where
  "sample_signin =
     \<lparr>data = Some \<lparr>query_config = Some \<lparr>auth = Some \<lparr>auth_method = Some
               \<lparr>oauth = Some \<lparr>azuread = Some sample_azuread\<rparr>\<rparr>\<rparr>\<rparr>\<rparr>,
      loading = False, error = None\<rparr>"

definition loading_signin :: "(GetSignInMethodsQuery, string) query_result" where
  "loading_signin = \<lparr>data = None, loading = True, error = None\<rparr>"

definition failed_signin :: "(GetSignInMethodsQuery, string) query_result" where
  "failed_signin = \<lparr>data = None, loading = False, error = Some ''network error''\<rparr>"

definition invalid_dirty_form :: form_state where
  "invalid_dirty_form =
     \<lparr>defaultValues = sample_azuread,
      form_values = sample_azuread\<lparr>clientSecret := Some []\<rparr>,
      isDirty = True, isSubmitting = False, errors = []\<rparr>"


definition dirty_form :: form_state where
  "dirty_form =
     \<lparr>defaultValues = sample_azuread,
      form_values = sample_azuread\<lparr>tenant := Some (js ''organizations'')\<rparr>,
      isDirty = True, isSubmitting = False, errors = [(''tenant'', js ''stale'')]\<rparr>"

definition sample_page :: "string page_state" where
  "sample_page = \<lparr>form = dirty_form, toasts = [], sent = []\<rparr>"

definition accept_update :: "update_config_variables \<Rightarrow> string + unit" where
  "accept_update variables = Inr ()"

definition reject_update :: "update_config_variables \<Rightarrow> string + unit" where
  "reject_update variables = Inl ''forbidden''"

section \<open>Basic facts\<close>

lemma join_empty_sep: "join [] xs = concat xs"
  by (induction "[] :: jsstring" xs rule: join.induct) simp_all

lemma join_bullets: "join [] (replicate n bullet) = replicate n 0x2022"
  by (induction n) (simp_all add: join_empty_sep bullet_def)

lemma truthy_Some [simp]: "truthy (Some s) = (s \<noteq> [])"
  by (simp add: truthy_def)

lemma truthy_None [simp]: "truthy None = False"
  by (simp add: truthy_def)

lemma js_eq_Nil [simp]: "(js s = []) = (s = [])"
  by (simp add: js_def)

lemma hasuraUrl_cong:
  "isPlatform env1 = isPlatform env2 \<Longrightarrow> NEXT_PUBLIC_ENV env1 = NEXT_PUBLIC_ENV env2 \<Longrightarrow>
   getHasuraConsoleServiceUrl env1 = getHasuraConsoleServiceUrl env2 \<Longrightarrow>
   map_option subdomain (currentProject env1) = map_option subdomain (currentProject env2) \<Longrightarrow>
   map_option region (currentProject env1) = map_option region (currentProject env2) \<Longrightarrow>
   hasuraUrl m env1 = hasuraUrl m env2"
  by (simp add: hasuraUrl_def)

lemma handleProviderUpdate_resolved:
  "currentProject env = Some p \<Longrightarrow> updateConfig (updateConfig_variables p vs) = Inr r \<Longrightarrow>
   handleProviderUpdate serverError sty updateConfig env vs st =
     (Inr (),
      st\<lparr>sent := sent st @ [updateConfig_variables p vs],
         toasts := toasts st @
           [Toast ToastLoading (js ''Azure AD settings are being updated...'') sty,
            Toast ToastSuccess (js ''Azure AD settings have been updated successfully.'') sty],
         form := reset vs (form st)\<rparr>)"
  by (simp add: handleProviderUpdate_def toast_promise_def Let_def)

lemma handleProviderUpdate_rejected:
  "currentProject env = Some p \<Longrightarrow> updateConfig (updateConfig_variables p vs) = Inl e \<Longrightarrow>
   handleProviderUpdate serverError sty updateConfig env vs st =
     (Inr (),
      st\<lparr>sent := sent st @ [updateConfig_variables p vs],
         toasts := toasts st @
           [Toast ToastLoading (js ''Azure AD settings are being updated...'') sty,
            Toast ToastError
              (serverError
                 (js (''An error occurred while trying to update the project's '' @
                      ''Azure AD settings.'')) e) sty]\<rparr>)"
  by (simp add: handleProviderUpdate_def toast_promise_def Let_def)

section \<open>HasuraConnectionInfo: the loading guard\<close>

text \<open>
  C9. When the subdomain of the current project or its Hasura admin secret is missing or
  empty, HasuraConnectionInfo returns the loading screen, and the Hasura URL is not
  computed: the render is the same for any two versions of \<open>generateAppServiceUrl\<close> that
  agree on every present, non-empty subdomain, so the function is only ever called with
  such a subdomain.
\<close>

theorem HasuraConnectionInfo_url_guard:
  "(\<not> truthy (map_option subdomain (currentProject env)) \<or> \<not> truthy (projectAdminSecret env)
     \<longrightarrow> HasuraConnectionInfo m env props = LoadingScreen) \<and>
   ((\<forall>s r svc l rm. s \<noteq> [] \<longrightarrow>
        g' (Some s) r svc l rm = generateAppServiceUrl m (Some s) r svc l rm)
     \<longrightarrow> HasuraConnectionInfo (m\<lparr>generateAppServiceUrl := g'\<rparr>) env props
         = HasuraConnectionInfo m env props)"
proof (intro conjI impI)
  assume "\<not> truthy (map_option subdomain (currentProject env)) \<or> \<not> truthy (projectAdminSecret env)"
  then show "HasuraConnectionInfo m env props = LoadingScreen"
    by (simp add: HasuraConnectionInfo_def)
next
  assume agree: "\<forall>s r svc l rm. s \<noteq> [] \<longrightarrow>
        g' (Some s) r svc l rm = generateAppServiceUrl m (Some s) r svc l rm"
  show "HasuraConnectionInfo (m\<lparr>generateAppServiceUrl := g'\<rparr>) env props
         = HasuraConnectionInfo m env props"
  proof (cases "truthy (map_option subdomain (currentProject env))")
    case False
    then show ?thesis by (simp add: HasuraConnectionInfo_def)
  next
    case True
    then obtain p where p: "currentProject env = Some p" "subdomain p \<noteq> []"
      by (auto simp: truthy_def split: option.splits)
    have "hasuraUrl (m\<lparr>generateAppServiceUrl := g'\<rparr>) env = hasuraUrl m env"
      using agree p by (simp add: hasuraUrl_def)
    then show ?thesis by (simp add: HasuraConnectionInfo_def split: option.splits)
  qed
qed

theorem HasuraConnectionInfo_url_guard_witness:
  "HasuraConnectionInfo sample_module (sample_env\<lparr>currentProject := None\<rparr>) sample_props
     = LoadingScreen \<and>
   HasuraConnectionInfo sample_module
     (sample_env\<lparr>currentProject := Some (sample_project\<lparr>subdomain := []\<rparr>)\<rparr>) sample_props
     = LoadingScreen \<and>
   other_generateAppServiceUrl None None [] None None
     \<noteq> generateAppServiceUrl sample_module None None [] None None \<and>
   HasuraConnectionInfo (sample_module\<lparr>generateAppServiceUrl := other_generateAppServiceUrl\<rparr>)
     sample_env sample_props
     = HasuraConnectionInfo sample_module sample_env sample_props \<and>
   HasuraConnectionInfo sample_module sample_env sample_props \<noteq> LoadingScreen"
proof -
  have agree: "\<forall>s r svc l rm. s \<noteq> [] \<longrightarrow>
      other_generateAppServiceUrl (Some s) r svc l rm
        = generateAppServiceUrl sample_module (Some s) r svc l rm"
    by (simp add: other_generateAppServiceUrl_def sample_module_def)
  have differ: "other_generateAppServiceUrl None None [] None None
     \<noteq> generateAppServiceUrl sample_module None None [] None None"
    by (simp add: other_generateAppServiceUrl_def sample_module_def
        sample_generateAppServiceUrl_def js_def)
  have shown: "HasuraConnectionInfo sample_module sample_env sample_props \<noteq> LoadingScreen"
    by (simp add: HasuraConnectionInfo_def projectAdminSecret_def sample_env_def
        sample_project_def LoadingScreen_def)
  have none: "\<not> truthy (map_option subdomain (currentProject (sample_env\<lparr>currentProject := None\<rparr>)))"
    by simp
  have empty: "\<not> truthy (map_option subdomain
      (currentProject (sample_env\<lparr>currentProject := Some (sample_project\<lparr>subdomain := []\<rparr>)\<rparr>)))"
    by simp
  show ?thesis
    using HasuraConnectionInfo_url_guard
            [of "sample_env\<lparr>currentProject := None\<rparr>" sample_module sample_props
                other_generateAppServiceUrl]
          HasuraConnectionInfo_url_guard
            [of "sample_env\<lparr>currentProject := Some (sample_project\<lparr>subdomain := []\<rparr>)\<rparr>"
                sample_module sample_props other_generateAppServiceUrl]
          HasuraConnectionInfo_url_guard
            [of sample_env sample_module sample_props other_generateAppServiceUrl]
          agree differ shown none empty
    by blast
qed

section \<open>HasuraConnectionInfo: the admin secret\<close>

text \<open>
  C8. HasuraConnectionInfo does not display the admin secret: two renders whose
  environments agree on everything the component reads except the secret, and whose
  secrets have the same length, are the same once the handlers are removed. When the
  component is shown, its texts are the fixed copy and one string of bullets as long as
  the secret, and its handlers are the clipboard copy of the secret and the \<open>close\<close>
  callback.
\<close>

theorem HasuraConnectionInfo_masks_secret:
  "isPlatform env1 = isPlatform env2 \<and> NEXT_PUBLIC_ENV env1 = NEXT_PUBLIC_ENV env2 \<and>
   getHasuraConsoleServiceUrl env1 = getHasuraConsoleServiceUrl env2 \<and>
   map_option subdomain (currentProject env1) = map_option subdomain (currentProject env2) \<and>
   map_option region (currentProject env1) = map_option region (currentProject env2) \<and>
   map_option length (projectAdminSecret env1) = map_option length (projectAdminSecret env2)
   \<longrightarrow>
   erase_handlers (HasuraConnectionInfo m env1 props)
     = erase_handlers (HasuraConnectionInfo m env2 props) \<and>
   (HasuraConnectionInfo m env1 props \<noteq> LoadingScreen \<longrightarrow>
      (\<exists>secret. projectAdminSecret env1 = Some secret \<and>
         texts (HasuraConnectionInfo m env1 props) =
           [js ''Open Hasura'',
            js (''Hasura is the dashboard you'll use to edit your schema and '' @
                ''permissions as well as browse data. Copy the admin secret to your '' @
                ''clipboard and enter it in the next screen.''),
            js ''Admin Secret'',
            replicate (length secret) 0x2022,
            js ''Open Hasura''] @
           (case close props of None \<Rightarrow> [] | Some cb \<Rightarrow> [js ''Cancel'']) \<and>
         handlers (HasuraConnectionInfo m env1 props) =
           Copy secret (js ''Hasura admin secret'') #
           (case close props of None \<Rightarrow> [] | Some cb \<Rightarrow> [cb])))"
proof (intro impI, elim conjE, intro conjI impI)
  assume same: "isPlatform env1 = isPlatform env2" "NEXT_PUBLIC_ENV env1 = NEXT_PUBLIC_ENV env2"
    "getHasuraConsoleServiceUrl env1 = getHasuraConsoleServiceUrl env2"
    "map_option subdomain (currentProject env1) = map_option subdomain (currentProject env2)"
    "map_option region (currentProject env1) = map_option region (currentProject env2)"
  assume len: "map_option length (projectAdminSecret env1)
      = map_option length (projectAdminSecret env2)"
  have url: "hasuraUrl m env1 = hasuraUrl m env2"
    using same by (rule hasuraUrl_cong)
  have tr: "truthy (projectAdminSecret env1) = truthy (projectAdminSecret env2)"
    using len by (cases "projectAdminSecret env1"; cases "projectAdminSecret env2") auto
  show "erase_handlers (HasuraConnectionInfo m env1 props)
     = erase_handlers (HasuraConnectionInfo m env2 props)"
  proof (cases "projectAdminSecret env1")
    case None
    then show ?thesis using tr by (simp add: HasuraConnectionInfo_def)
  next
    case (Some s1)
    then obtain s2 where s2: "projectAdminSecret env2 = Some s2" "length s1 = length s2"
      using len by (cases "projectAdminSecret env2") auto
    have emp: "(s1 = []) = (s2 = [])"
      using s2(2) by auto
    show ?thesis
    proof (cases "s1 = [] \<or> \<not> truthy (map_option subdomain (currentProject env1))")
      case True
      then show ?thesis
        using Some s2(1) emp same(4) by (auto simp add: HasuraConnectionInfo_def)
    next
      case False
      then show ?thesis
        using Some s2 emp url same(4)
        by (simp add: HasuraConnectionInfo_def join_bullets)
    qed
  qed
next
  assume shown: "HasuraConnectionInfo m env1 props \<noteq> LoadingScreen"
  then obtain secret where sec: "projectAdminSecret env1 = Some secret" "secret \<noteq> []"
    and sub: "truthy (map_option subdomain (currentProject env1))"
    by (cases "projectAdminSecret env1") (auto simp: HasuraConnectionInfo_def split: if_splits)
  show "\<exists>secret. projectAdminSecret env1 = Some secret \<and>
         texts (HasuraConnectionInfo m env1 props) =
           [js ''Open Hasura'',
            js (''Hasura is the dashboard you'll use to edit your schema and '' @
                ''permissions as well as browse data. Copy the admin secret to your '' @
                ''clipboard and enter it in the next screen.''),
            js ''Admin Secret'',
            replicate (length secret) 0x2022,
            js ''Open Hasura''] @
           (case close props of None \<Rightarrow> [] | Some cb \<Rightarrow> [js ''Cancel'']) \<and>
         handlers (HasuraConnectionInfo m env1 props) =
           Copy secret (js ''Hasura admin secret'') #
           (case close props of None \<Rightarrow> [] | Some cb \<Rightarrow> [cb])"
    using sec sub
    by (simp add: HasuraConnectionInfo_def join_bullets split: option.splits)
qed

theorem HasuraConnectionInfo_masks_secret_witness:
  "projectAdminSecret sample_env \<noteq> projectAdminSecret other_secret_env \<and>
   erase_handlers (HasuraConnectionInfo sample_module sample_env sample_props)
     = erase_handlers (HasuraConnectionInfo sample_module other_secret_env sample_props) \<and>
   texts (HasuraConnectionInfo sample_module sample_env sample_props) =
     [js ''Open Hasura'',
      js (''Hasura is the dashboard you'll use to edit your schema and '' @
          ''permissions as well as browse data. Copy the admin secret to your '' @
          ''clipboard and enter it in the next screen.''),
      js ''Admin Secret'',
      [0x2022, 0x2022, 0x2022, 0x2022, 0x2022, 0x2022],
      js ''Open Hasura'',
      js ''Cancel''] \<and>
   handlers (HasuraConnectionInfo sample_module sample_env sample_props) =
     [Copy (js ''s3cret'') (js ''Hasura admin secret''), PropCallback ''close'']"
proof -
  have secrets: "projectAdminSecret sample_env = Some (js ''s3cret'')"
      "projectAdminSecret other_secret_env = Some (js ''SECRET'')"
    by (simp_all add: projectAdminSecret_def other_secret_env_def sample_env_def
        sample_project_def)
  have differ: "js ''s3cret'' \<noteq> js ''SECRET''"
    by (simp add: js_def)
  have len: "length (js ''s3cret'') = 6" "length (js ''SECRET'') = 6"
    by (simp_all add: js_def)
  have same: "isPlatform sample_env = isPlatform other_secret_env \<and>
      NEXT_PUBLIC_ENV sample_env = NEXT_PUBLIC_ENV other_secret_env \<and>
      getHasuraConsoleServiceUrl sample_env = getHasuraConsoleServiceUrl other_secret_env \<and>
      map_option subdomain (currentProject sample_env)
        = map_option subdomain (currentProject other_secret_env) \<and>
      map_option region (currentProject sample_env)
        = map_option region (currentProject other_secret_env)"
    by (simp add: other_secret_env_def sample_env_def)
  have shown: "HasuraConnectionInfo sample_module sample_env sample_props \<noteq> LoadingScreen"
    using secrets(1)
    by (simp add: HasuraConnectionInfo_def sample_env_def sample_project_def
        LoadingScreen_def)
  have cb: "close sample_props = Some (PropCallback ''close'')"
    by (simp add: sample_props_def)
  have six: "replicate 6 (0x2022 :: 16 word) = [0x2022, 0x2022, 0x2022, 0x2022, 0x2022, 0x2022]"
    by (simp add: numeral_eq_Suc)
  show ?thesis
    using HasuraConnectionInfo_masks_secret
            [of sample_env other_secret_env sample_module sample_props]
          secrets differ len same shown cb six
    by simp
qed

section \<open>CustomDomains: the plan gate\<close>

text \<open>
  C4. For every current project, CustomDomains renders by plan: on a free plan the page is
  the container with the UpgradeToProBanner and nothing else, so none of AuthDomain,
  HasuraDomain, DatabaseDomain and RunServiceDomains; otherwise it contains the four
  panels and no upgrade banner.
\<close>

theorem CustomDomains_plan_gate:
  "currentProject env = Some p \<longrightarrow>
   (\<exists>t. CustomDomains env = Inr t \<and>
     (if isFree (plan p)
      then components t = [''Container'', ''UpgradeToProBanner'']
      else ''AuthDomain'' \<in> set (components t) \<and> ''HasuraDomain'' \<in> set (components t) \<and>
           ''DatabaseDomain'' \<in> set (components t) \<and>
           ''RunServiceDomains'' \<in> set (components t) \<and>
           ''UpgradeToProBanner'' \<notin> set (components t)))"
  by (simp add: CustomDomains_def)

theorem CustomDomains_plan_gate_witness:
  "(\<exists>t. (CustomDomains free_env :: string thrown + node) = Inr t \<and>
      components t = [''Container'', ''UpgradeToProBanner'']) \<and>
   (\<exists>t. (CustomDomains sample_env :: string thrown + node) = Inr t \<and>
      ''AuthDomain'' \<in> set (components t) \<and> ''HasuraDomain'' \<in> set (components t) \<and>
      ''DatabaseDomain'' \<in> set (components t) \<and> ''RunServiceDomains'' \<in> set (components t) \<and>
      ''UpgradeToProBanner'' \<notin> set (components t))"
  using CustomDomains_plan_gate [of free_env "sample_project\<lparr>plan := \<lparr>isFree = True\<rparr>\<rparr>"]
        CustomDomains_plan_gate [of sample_env sample_project]
  by (simp add: free_env_def sample_env_def sample_project_def)

section \<open>The validation schema\<close>

text \<open>
  C5. An assignment of clientId, clientSecret, tenant and enabled passes the validation
  schema if and only if enabled is false, or enabled is true and the three strings are
  non-empty.
\<close>

theorem validationSchema_required_fields:
  "validationSchema \<lparr>clientId = Some c, clientSecret = Some s, tenant = Some t, enabled = Some e\<rparr>
     = (\<not> e \<or> (e \<and> c \<noteq> [] \<and> s \<noteq> [] \<and> t \<noteq> []))"
  by (auto simp add: validationSchema_def when_enabled_def yup_required_def yup_string_def
      yup_boolean_def)

theorem validationSchema_required_fields_witness:
  "validationSchema
     \<lparr>clientId = Some (js ''id''), clientSecret = Some (js ''secret''),
      tenant = Some (js ''common''), enabled = Some True\<rparr> \<and>
   \<not> validationSchema
     \<lparr>clientId = Some (js ''id''), clientSecret = Some [],
      tenant = Some (js ''common''), enabled = Some True\<rparr> \<and>
   validationSchema
     \<lparr>clientId = Some [], clientSecret = Some [], tenant = Some [], enabled = Some False\<rparr>"
  using validationSchema_required_fields [of "js ''id''" "js ''secret''" "js ''common''" True]
        validationSchema_required_fields [of "js ''id''" "[]" "js ''common''" True]
        validationSchema_required_fields [of "[]" "[]" "[]" False]
  by simp

section \<open>Loading states\<close>

text \<open>
  C7. While the metrics query is loading and has no data, OverviewMetrics renders one
  placeholder card per metric, six in all, each pulsing and without label or value, and
  the only text is the caption; while the sign-in-methods query is loading,
  AzureADProviderSettings renders the activity indicator and nothing of the form.
\<close>

theorem loading_placeholders:
  "(data q = None \<and> loading q \<longrightarrow>
     (\<exists>t. OverviewMetrics ops q = Inr t \<and>
        length (elements_named ''MetricsCard'' t) = 6 \<and>
        map (prop_of ''key'') (elements_named ''MetricsCard'' t)
          = map (\<lambda>c. Some (Str (card_label c))) (cardElements ops (data q)) \<and>
        (\<forall>c \<in> set (elements_named ''MetricsCard'' t).
           prop_of ''className'' c = Some (Str (js ''h-[92px] animate-pulse'')) \<and>
           prop_of ''label'' c = None \<and> prop_of ''value'' c = None \<and> texts c = []) \<and>
        map (prop_of ''className'') (elements_named ''Box'' t) =
          replicate 6 (Some (TwMerge
            [Some (js ''grid grid-flow-row gap-2 rounded-md px-4 py-3''),
             Some (js ''h-[92px] animate-pulse'')])) \<and>
        texts t = [js ''Your project usage since the beginning of the month.''])) \<and>
   (loading q' \<longrightarrow>
     (\<exists>t. snd (AzureADProviderSettings m env q' mounted) = Inr t \<and>
        components t = [''ActivityIndicator''] \<and> texts t = []))"
  by (simp add: OverviewMetrics_def cardElements_def MetricsCard_def
      AzureADProviderSettings_def Let_def numeral_eq_Suc)

theorem loading_placeholders_witness:
  "(\<exists>t. OverviewMetrics sample_ops loading_metrics = Inr t \<and>
        length (elements_named ''MetricsCard'' t) = 6 \<and>
        (\<forall>c \<in> set (elements_named ''MetricsCard'' t).
           prop_of ''className'' c = Some (Str (js ''h-[92px] animate-pulse'')) \<and>
           prop_of ''label'' c = None \<and> prop_of ''value'' c = None \<and> texts c = []) \<and>
        texts t = [js ''Your project usage since the beginning of the month.'']) \<and>
   (\<exists>t. snd (AzureADProviderSettings sample_module sample_env loading_signin None) = Inr t \<and>
        components t = [''ActivityIndicator''] \<and> texts t = [])"
proof -
  have metrics: "data loading_metrics = None \<and> loading loading_metrics"
    by (simp add: loading_metrics_def)
  have signin: "loading loading_signin"
    by (simp add: loading_signin_def)
  show ?thesis
    using loading_placeholders
            [of loading_metrics sample_ops loading_signin sample_module sample_env None]
          metrics signin
    by blast
qed

section \<open>The submit button of the Azure AD form\<close>

text \<open>
  The submit button is not disabled for a dirty form whose values fail the validation
  schema: with maintenance off, the form of the sample whose client secret has been
  emptied is dirty and invalid, and its button is enabled.
\<close>

theorem submit_enabled_on_invalid_values:
  "Option.bind
     (rendered (snd (AzureADProviderSettings sample_module sample_env sample_signin
                       (Some invalid_dirty_form))))
     submitButton_disabled = Some (Bool False) \<and>
   isDirty invalid_dirty_form \<and>
   \<not> validationSchema (form_values invalid_dirty_form)"
  by (simp add: AzureADProviderSettings_def Let_def useForm_def sample_env_def sample_signin_def
      invalid_dirty_form_def rendered_def submitButton_disabled_def validationSchema_def
      when_enabled_def yup_required_def sample_azuread_def)

text \<open>
  C1, as the code has it. In every render that shows the form (the query is not loading
  and has no error, and there is a current project), the submit button is disabled
  exactly when the form is not dirty or maintenance is active; whether the values satisfy
  the validation schema plays no part.
\<close>

theorem submit_disabled_iff_clean_or_maintenance:
  "\<not> loading q \<and> error q = None \<and> currentProject env = Some p \<longrightarrow>
   (\<exists>t. snd (AzureADProviderSettings m env q mounted) = Inr t \<and>
      submitButton_disabled t =
        Some (Bool (\<not> isDirty (fst (AzureADProviderSettings m env q mounted)) \<or>
                    maintenanceActive env)))"
  by (simp add: AzureADProviderSettings_def Let_def submitButton_disabled_def
      split: option.splits)

theorem submit_disabled_iff_clean_or_maintenance_witness:
  "(\<exists>t. snd (AzureADProviderSettings sample_module sample_env sample_signin
              (Some invalid_dirty_form)) = Inr t \<and>
      submitButton_disabled t = Some (Bool False)) \<and>
   (\<exists>t. snd (AzureADProviderSettings sample_module (sample_env\<lparr>maintenanceActive := True\<rparr>)
              sample_signin (Some dirty_form)) = Inr t \<and>
      submitButton_disabled t = Some (Bool True)) \<and>
   (\<exists>t. snd (AzureADProviderSettings sample_module sample_env sample_signin None) = Inr t \<and>
      submitButton_disabled t = Some (Bool True))"
proof -
  have q: "\<not> loading sample_signin \<and> error sample_signin = None"
    by (simp add: sample_signin_def)
  have p: "currentProject sample_env = Some sample_project"
      "currentProject (sample_env\<lparr>maintenanceActive := True\<rparr>) = Some sample_project"
    by (simp_all add: sample_env_def)
  have f: "isDirty (fst (AzureADProviderSettings sample_module sample_env sample_signin
              (Some invalid_dirty_form)))"
      "\<not> isDirty (fst (AzureADProviderSettings sample_module sample_env sample_signin None))"
      "\<not> maintenanceActive sample_env"
      "maintenanceActive (sample_env\<lparr>maintenanceActive := True\<rparr>)"
    by (simp_all add: AzureADProviderSettings_def Let_def useForm_def invalid_dirty_form_def
        sample_env_def)
  show ?thesis
    using submit_disabled_iff_clean_or_maintenance
            [of sample_signin sample_env sample_project sample_module "Some invalid_dirty_form"]
          submit_disabled_iff_clean_or_maintenance
            [of sample_signin "sample_env\<lparr>maintenanceActive := True\<rparr>" sample_project
                sample_module "Some dirty_form"]
          submit_disabled_iff_clean_or_maintenance
            [of sample_signin sample_env sample_project sample_module None]
          q p f
    by simp
qed

section \<open>Errors of the query hooks\<close>

text \<open>
  An error of the metrics query is not thrown when the query still has data: the cards are
  rendered.
\<close>

theorem stale_metrics_error_not_thrown:
  "error stale_metrics = Some ''network error'' \<and>
   \<not> isl (OverviewMetrics sample_ops stale_metrics)"
  by (simp add: OverviewMetrics_def stale_metrics_def)

text \<open>
  C2, as the code has it. OverviewMetrics throws the error of the metrics query exactly
  when the query has no data, is not loading and has an error; AzureADProviderSettings
  throws the error of the sign-in-methods query exactly when the query is not loading and
  has an error.
\<close>

theorem query_error_thrown_iff:
  "(OverviewMetrics ops q = Inl x)
     = (data q = None \<and> \<not> loading q \<and> map_option QueryError (error q) = Some x) \<and>
   (snd (AzureADProviderSettings m env q' mounted) = Inl (QueryError e))
     = (\<not> loading q' \<and> error q' = Some e)"
  by (auto simp add: OverviewMetrics_def AzureADProviderSettings_def Let_def
      split: option.splits)

theorem query_error_thrown_iff_witness:
  "OverviewMetrics sample_ops failed_metrics = Inl (QueryError ''network error'') \<and>
   snd (AzureADProviderSettings sample_module sample_env failed_signin None)
     = Inl (QueryError ''network error'')"
  using query_error_thrown_iff
          [of sample_ops failed_metrics "QueryError ''network error''" sample_module sample_env
              failed_signin None "''network error''"]
  by (simp add: failed_metrics_def failed_signin_def)

section \<open>The submit handler\<close>

text \<open>
  C3. For every submission of the Azure AD form, a toast is shown on both outcomes of the
  update-config mutation: after the loading toast, the success toast with its fixed copy
  when the mutation resolves, and the error toast with its fixed copy when it rejects.
\<close>

theorem toast_on_both_outcomes:
  "currentProject env = Some p \<longrightarrow>
   (\<forall>r. updateConfig (updateConfig_variables p vs) = Inr r \<longrightarrow>
      toasts (snd (handleProviderUpdate getServerError sty updateConfig env vs st)) =
        toasts st @
        [Toast ToastLoading (js ''Azure AD settings are being updated...'') sty,
         Toast ToastSuccess (js ''Azure AD settings have been updated successfully.'') sty]) \<and>
   (\<forall>e. updateConfig (updateConfig_variables p vs) = Inl e \<longrightarrow>
      toasts (snd (handleProviderUpdate getServerError sty updateConfig env vs st)) =
        toasts st @
        [Toast ToastLoading (js ''Azure AD settings are being updated...'') sty,
         Toast ToastError
           (js (''An error occurred while trying to update the project's '' @
                ''Azure AD settings.'')) sty])"
  by (simp add: handleProviderUpdate_resolved handleProviderUpdate_rejected getServerError_def)

theorem toast_on_both_outcomes_witness:
  "toasts (snd (handleProviderUpdate getServerError ''style'' accept_update sample_env
                  sample_azuread sample_page)) =
     [Toast ToastLoading (js ''Azure AD settings are being updated...'') ''style'',
      Toast ToastSuccess (js ''Azure AD settings have been updated successfully.'') ''style''] \<and>
   toasts (snd (handleProviderUpdate getServerError ''style'' reject_update sample_env
                  sample_azuread sample_page)) =
     [Toast ToastLoading (js ''Azure AD settings are being updated...'') ''style'',
      Toast ToastError
        (js (''An error occurred while trying to update the project's '' @
             ''Azure AD settings.'')) ''style'']"
proof -
  have p: "currentProject sample_env = Some sample_project"
    by (simp add: sample_env_def)
  have ok: "accept_update (updateConfig_variables sample_project sample_azuread) = Inr ()"
    by (simp add: accept_update_def)
  have ko: "reject_update (updateConfig_variables sample_project sample_azuread)
      = Inl ''forbidden''"
    by (simp add: reject_update_def)
  have none: "toasts sample_page = []"
    by (simp add: sample_page_def)
  show ?thesis
    using toast_on_both_outcomes
            [of sample_env sample_project accept_update sample_azuread "''style''" sample_page]
          toast_on_both_outcomes
            [of sample_env sample_project reject_update sample_azuread "''style''" sample_page]
          p ok ko none
    by simp
qed

text \<open>
  C6. The values of the form mirror the \<open>azuread\<close> subtree of the remote configuration.
  The query is read with the cache-only fetch policy; on the first render the default
  values of the form are the fields of the subtree, the empty string or false standing for
  a missing field, and the form is clean; a submission sends one update-config mutation
  for the current project whose \<open>azuread\<close> subtree is the submitted values; when the
  mutation resolves, the form is reset to the submitted values and is clean again.
\<close>

theorem form_mirrors_remote_config:
  "fetchPolicy (useGetSignInMethodsQuery_options env) = CacheOnly \<and>
   defaultValues (fst (AzureADProviderSettings m env q None)) =
     \<lparr>clientId = Some (case clientId (azuread_of (data q)) of None \<Rightarrow> [] | Some v \<Rightarrow> v),
      clientSecret = Some (case clientSecret (azuread_of (data q)) of None \<Rightarrow> [] | Some v \<Rightarrow> v),
      tenant = Some (case tenant (azuread_of (data q)) of None \<Rightarrow> [] | Some v \<Rightarrow> v),
      enabled = Some (case enabled (azuread_of (data q)) of None \<Rightarrow> False | Some b \<Rightarrow> b)\<rparr> \<and>
   form_values (fst (AzureADProviderSettings m env q None))
     = defaultValues (fst (AzureADProviderSettings m env q None)) \<and>
   \<not> isDirty (fst (AzureADProviderSettings m env q None)) \<and>
   (data q = Some \<lparr>query_config = Some \<lparr>auth = Some \<lparr>auth_method = Some
        \<lparr>oauth = Some \<lparr>azuread = Some a\<rparr>\<rparr>\<rparr>\<rparr>\<rparr> \<longrightarrow> azuread_of (data q) = a) \<and>
   (currentProject env = Some p \<longrightarrow>
      sent (snd (handleProviderUpdate serverError sty updateConfig env vs st)) =
        sent st @
        [\<lparr>appId = project_id p,
          variables_config = \<lparr>auth = Some \<lparr>auth_method = Some
             \<lparr>oauth = Some \<lparr>azuread = Some vs\<rparr>\<rparr>\<rparr>\<rparr>\<rparr>] \<and>
      (\<forall>r. updateConfig (updateConfig_variables p vs) = Inr r \<longrightarrow>
         defaultValues (form (snd (handleProviderUpdate serverError sty updateConfig env vs st)))
           = vs \<and>
         form_values (form (snd (handleProviderUpdate serverError sty updateConfig env vs st)))
           = vs \<and>
         \<not> isDirty (form (snd (handleProviderUpdate serverError sty updateConfig env vs st)))))"
proof (intro conjI impI allI)
  show "fetchPolicy (useGetSignInMethodsQuery_options env) = CacheOnly"
    by (simp add: useGetSignInMethodsQuery_options_def)
next
  show "defaultValues (fst (AzureADProviderSettings m env q None)) =
     \<lparr>clientId = Some (case clientId (azuread_of (data q)) of None \<Rightarrow> [] | Some v \<Rightarrow> v),
      clientSecret = Some (case clientSecret (azuread_of (data q)) of None \<Rightarrow> [] | Some v \<Rightarrow> v),
      tenant = Some (case tenant (azuread_of (data q)) of None \<Rightarrow> [] | Some v \<Rightarrow> v),
      enabled = Some (case enabled (azuread_of (data q)) of None \<Rightarrow> False | Some b \<Rightarrow> b)\<rparr>"
    by (simp add: AzureADProviderSettings_def Let_def useForm_def form_defaultValues_def
        or_string_def or_bool_def truthy_def split: option.splits bool.splits)
next
  show "form_values (fst (AzureADProviderSettings m env q None))
     = defaultValues (fst (AzureADProviderSettings m env q None))"
    by (simp add: AzureADProviderSettings_def Let_def useForm_def)
next
  show "\<not> isDirty (fst (AzureADProviderSettings m env q None))"
    by (simp add: AzureADProviderSettings_def Let_def useForm_def)
next
  assume "data q = Some \<lparr>query_config = Some \<lparr>auth = Some \<lparr>auth_method = Some
        \<lparr>oauth = Some \<lparr>azuread = Some a\<rparr>\<rparr>\<rparr>\<rparr>\<rparr>"
  then show "azuread_of (data q) = a"
    by (simp add: azuread_of_def)
next
  assume "currentProject env = Some p"
  then show "sent (snd (handleProviderUpdate serverError sty updateConfig env vs st)) =
        sent st @
        [\<lparr>appId = project_id p,
          variables_config = \<lparr>auth = Some \<lparr>auth_method = Some
             \<lparr>oauth = Some \<lparr>azuread = Some vs\<rparr>\<rparr>\<rparr>\<rparr>\<rparr>]"
    by (cases "updateConfig (updateConfig_variables p vs)")
       (simp_all add: handleProviderUpdate_resolved handleProviderUpdate_rejected
          updateConfig_variables_def)
next
  fix r
  assume "currentProject env = Some p" "updateConfig (updateConfig_variables p vs) = Inr r"
  then have h: "form (snd (handleProviderUpdate serverError sty updateConfig env vs st))
      = reset vs (form st)"
    by (simp add: handleProviderUpdate_resolved)
  show "defaultValues (form (snd (handleProviderUpdate serverError sty updateConfig env vs st)))
           = vs"
    by (simp add: h reset_def)
  show "form_values (form (snd (handleProviderUpdate serverError sty updateConfig env vs st)))
           = vs"
    by (simp add: h reset_def)
  show "\<not> isDirty (form (snd (handleProviderUpdate serverError sty updateConfig env vs st)))"
    by (simp add: h reset_def)
qed

theorem form_mirrors_remote_config_witness:
  "defaultValues (fst (AzureADProviderSettings sample_module sample_env sample_signin None))
     = sample_azuread \<and>
   sent (snd (handleProviderUpdate getServerError ''style'' accept_update sample_env
                (form_values dirty_form) sample_page)) =
     [\<lparr>appId = js ''p1'',
       variables_config = \<lparr>auth = Some \<lparr>auth_method = Some
          \<lparr>oauth = Some \<lparr>azuread = Some (form_values dirty_form)\<rparr>\<rparr>\<rparr>\<rparr>\<rparr>] \<and>
   isDirty (form sample_page) \<and>
   form_values (form (snd (handleProviderUpdate getServerError ''style'' accept_update
                             sample_env (form_values dirty_form) sample_page)))
     = form_values dirty_form \<and>
   defaultValues (form (snd (handleProviderUpdate getServerError ''style'' accept_update
                               sample_env (form_values dirty_form) sample_page)))
     = form_values dirty_form \<and>
   \<not> isDirty (form (snd (handleProviderUpdate getServerError ''style'' accept_update
                            sample_env (form_values dirty_form) sample_page)))"
proof -
  have d: "data sample_signin = Some \<lparr>query_config = Some \<lparr>auth = Some \<lparr>auth_method = Some
        \<lparr>oauth = Some \<lparr>azuread = Some sample_azuread\<rparr>\<rparr>\<rparr>\<rparr>\<rparr>"
    by (simp add: sample_signin_def)
  have a: "clientId sample_azuread = Some (js ''id'')"
      "clientSecret sample_azuread = Some (js ''secret'')"
      "tenant sample_azuread = Some (js ''common'')" "enabled sample_azuread = Some True"
      "sample_azuread =
         \<lparr>clientId = Some (js ''id''), clientSecret = Some (js ''secret''),
          tenant = Some (js ''common''), enabled = Some True\<rparr>"
    by (simp_all add: sample_azuread_def)
  have p: "currentProject sample_env = Some sample_project" "project_id sample_project = js ''p1''"
    by (simp_all add: sample_env_def sample_project_def)
  have ok: "accept_update (updateConfig_variables sample_project (form_values dirty_form))
      = Inr ()"
    by (simp add: accept_update_def)
  have st: "sent sample_page = []" "isDirty (form sample_page)"
    by (simp_all add: sample_page_def dirty_form_def)
  show ?thesis
    using form_mirrors_remote_config
            [of sample_env sample_module sample_signin sample_azuread sample_project
                getServerError "''style''" accept_update "form_values dirty_form" sample_page]
          d a p ok st
    by simp
qed

text \<open>
  C10. In the submit handler the form is reset only after a successful mutation: when the
  update-config mutation rejects, the form is left as it was, values and dirty state
  included, and the handler still resolves, the error being caught; when the mutation
  resolves, the form is reset to the submitted values.
\<close>

theorem failed_update_keeps_form:
  "currentProject env = Some p \<longrightarrow>
   (\<forall>e. updateConfig (updateConfig_variables p vs) = Inl e \<longrightarrow>
      fst (handleProviderUpdate serverError sty updateConfig env vs st) = Inr () \<and>
      form (snd (handleProviderUpdate serverError sty updateConfig env vs st)) = form st) \<and>
   (\<forall>r. updateConfig (updateConfig_variables p vs) = Inr r \<longrightarrow>
      fst (handleProviderUpdate serverError sty updateConfig env vs st) = Inr () \<and>
      form (snd (handleProviderUpdate serverError sty updateConfig env vs st))
        = reset vs (form st))"
  by (simp add: handleProviderUpdate_resolved handleProviderUpdate_rejected)

theorem failed_update_keeps_form_witness:
  "fst (handleProviderUpdate getServerError ''style'' reject_update sample_env
          (form_values dirty_form) sample_page) = Inr () \<and>
   form (snd (handleProviderUpdate getServerError ''style'' reject_update sample_env
                (form_values dirty_form) sample_page)) = dirty_form \<and>
   isDirty dirty_form \<and>
   form (snd (handleProviderUpdate getServerError ''style'' accept_update sample_env
                (form_values dirty_form) sample_page))
     = reset (form_values dirty_form) dirty_form \<and>
   reset (form_values dirty_form) dirty_form \<noteq> dirty_form"
proof -
  have p: "currentProject sample_env = Some sample_project"
    by (simp add: sample_env_def)
  have ko: "reject_update (updateConfig_variables sample_project (form_values dirty_form))
      = Inl ''forbidden''"
    by (simp add: reject_update_def)
  have ok: "accept_update (updateConfig_variables sample_project (form_values dirty_form))
      = Inr ()"
    by (simp add: accept_update_def)
  have st: "form sample_page = dirty_form" "isDirty dirty_form"
    by (simp_all add: sample_page_def dirty_form_def)
  have changed: "reset (form_values dirty_form) dirty_form \<noteq> dirty_form"
    by (simp add: reset_def dirty_form_def)
  show ?thesis
    using failed_update_keeps_form
            [of sample_env sample_project reject_update "form_values dirty_form"
                getServerError "''style''" sample_page]
          failed_update_keeps_form
            [of sample_env sample_project accept_update "form_values dirty_form"
                getServerError "''style''" sample_page]
          p ko ok st changed
    by simp
qed

end
